theory Spec2Isabelle
  imports Complex_Main "HOL-Library.Sublist" "HOL-Library.AList"
begin

section \<open>JavaScript values the handlers compute with\<close>

text \<open>
  An identifier (\<open>_id\<close>, the hexadecimal text of an \<open>ObjectId\<close>) is a string. A value that
  is \<open>undefined\<close> or a string is an \<open>option\<close>. A JavaScript number is \<open>NaN\<close> or an
  exact real: the rounding of IEEE doubles, infinities and the sign of zero are left out.
\<close>

type_synonym oid = string

datatype number = NaN | Num real

text \<open>
  The values an owner field or \<open>req.user.id\<close> can be: \<open>undefined\<close>, a string, or an
  \<open>ObjectId\<close> object, which is how the document mapper hands out a path declared
  \<open>Types.ObjectId\<close> (as \<open>user\<close> and \<open>bootcamp\<close> are in \<open>ICourse\<close>).
\<close>

datatype jsvalue = Undefined | Str string | ObjectId oid

text \<open>
  \<open>a !== b\<close>, where \<open>a\<close> is read from a document that the handler has just fetched and
  \<open>b\<close> comes with the request. Strict inequality does not convert: two strings differ
  by their text, and an object differs from every primitive and from every object that
  was made elsewhere, whatever it prints as.
\<close>

fun strict_neq :: "jsvalue \<Rightarrow> jsvalue \<Rightarrow> bool" where
  "strict_neq Undefined Undefined = False"
| "strict_neq (Str a) (Str b) = (a \<noteq> b)"
| "strict_neq _ _ = True"

text \<open>The identifier that a value denotes, and what a template literal prints for it.\<close>

fun id_of :: "jsvalue \<Rightarrow> oid option" where
  "id_of Undefined = None"
| "id_of (Str s) = Some s"
| "id_of (ObjectId h) = Some h"

definition js_template :: "jsvalue \<Rightarrow> string" where
  "js_template v = (case id_of v of None \<Rightarrow> ''undefined'' | Some s \<Rightarrow> s)"

text \<open>A template literal prints an undefined value as the word \<open>undefined\<close>.\<close>

fun js_string :: "string option \<Rightarrow> string" where
  "js_string None = ''undefined''"
| "js_string (Some s) = s"

text \<open>
  The builtin \<open>parseInt(string)\<close> with no radix: leading white space is skipped, one sign
  is read, a prefix \<open>0x\<close> or \<open>0X\<close> selects radix 16 (radix 10 otherwise), and the longest
  run of digits of that radix is the value; no digit gives \<open>NaN\<close>. White space is the
  ASCII part of the language's list (characters are bytes here).
\<close>

definition is_space :: "char \<Rightarrow> bool" where
  "is_space c = (of_char c \<in> {32, 9, 10, 11, 12, 13 :: nat})"

definition digit_value :: "char \<Rightarrow> nat" where
  "digit_value c =
     (let k = (of_char c :: nat) in
      if 48 \<le> k \<and> k \<le> 57 then k - 48
      else if 97 \<le> k \<and> k \<le> 122 then k - 87
      else if 65 \<le> k \<and> k \<le> 90 then k - 55
      else 36)"

definition is_digit :: "nat \<Rightarrow> char \<Rightarrow> bool" where
  "is_digit R c = (digit_value c < R)"

definition digits_value :: "nat \<Rightarrow> string \<Rightarrow> nat" where
  "digits_value R Z = foldl (\<lambda>a c. a * R + digit_value c) 0 Z"

definition parseInt :: "string \<Rightarrow> number" where
  "parseInt s =
     (let S1 = dropWhile is_space s;
          negative = (take 1 S1 = ''-'');
          S2 = (if take 1 S1 = ''-'' \<or> take 1 S1 = ''+'' then drop 1 S1 else S1);
          hex = (take 2 S2 = ''0x'' \<or> take 2 S2 = ''0X'');
          R = (if hex then 16 else 10);
          S3 = (if hex then drop 2 S2 else S2);
          Z = takeWhile (is_digit R) S3
      in if Z = [] then NaN
         else Num ((if negative then - 1 else 1) * real (digits_value R Z)))"


text \<open>\<open>a > b\<close> on numbers: every comparison with \<open>NaN\<close> is false.\<close>

fun js_gt :: "number \<Rightarrow> number \<Rightarrow> bool" where
  "js_gt (Num a) (Num b) = (b < a)"
| "js_gt _ _ = False"

text \<open>The decimal numeral of a natural number, the way a client writes a distance.\<close>

function dec :: "nat \<Rightarrow> string" where
  "dec n = (if n < 10 then [char_of (48 + n)] else dec (n div 10) @ [char_of (48 + n mod 10)])"
  by pat_completeness auto
termination
  by (relation "measure id") auto

declare dec.simps [simp del]

section \<open>Data model\<close>

text \<open>
  The principal that the authentication middleware puts in \<open>req.user\<close>; the handlers read
  it as \<open>req.user?.id\<close> and \<open>req.user?.role\<close>, so a request may carry none. The
  middleware, and with it the type of \<open>id\<close>, is not among the sources: \<open>user_id\<close> may be
  any value.
\<close>

record principal =
  user_id :: jsvalue
  role :: string

text \<open>
  A stored document is its \<open>_id\<close> paired with its fields. Of a bootcamp the handlers read
  \<open>user\<close> (the owner) and write \<open>photo\<close>; its schema is not among the sources, so the
  owner may be any value. A course is typed by \<open>ICourse\<close>: \<open>user\<close> and \<open>bootcamp\<close> are
  \<open>ObjectId\<close>s, both required. The other fields travel as name/value pairs.
\<close>

record bootcamp =
  b_user :: jsvalue
  b_photo :: "string option"
  b_fields :: "(string \<times> string) list"

record course =
  c_user :: oid
  c_bootcamp :: oid
  c_fields :: "(string \<times> string) list"

record body =
  body_user :: jsvalue
  body_bootcamp :: "string option"
  body_photo :: "string option"
  body_fields :: "(string \<times> string) list"

record uploaded_file =
  file_name :: string
  file_mimetype :: string
  file_size :: nat
  file_data :: string

text \<open>
  \<open>req_files\<close> is \<open>req.files\<close>, and inside it the entry \<open>file\<close>; either may be missing.
  The routes of the two routers bind \<open>:id\<close>, \<open>:bootcampId\<close>, \<open>:zipcode\<close> and \<open>:distance\<close>;
  a handler can read a parameter its route does not bind (\<open>addCourse\<close> reads
  \<open>req.params.id\<close>), so the first two are optional.
\<close>

record request =
  params_id :: "string option"
  params_bootcampId :: "string option"
  params_zipcode :: string
  params_distance :: string
  req_user :: "principal option"
  req_body :: body
  req_files :: "uploaded_file option option"

text \<open>
  The state outside the handlers: the two collections, and the upload directory as the
  files it holds, path by path.
\<close>

record store =
  bootcamps :: "(oid \<times> bootcamp) list"
  courses :: "(oid \<times> course) list"
  uploads :: "(string \<times> string) list"

record geopoint =
  latitude :: real
  longitude :: real

text \<open>The filter \<open>$centerSphere: [[lng, lat], radius]\<close>.\<close>

record centerSphere =
  cs_lng :: real
  cs_lat :: real
  cs_radius :: number

datatype exception =
    NotFoundException "string option"
  | BadRequestException "string option"
  | InvalidCredentialException "string option"
  | ServerErrorException "string option"

datatype thrown = CastError | ValidationError | DuplicateKey | TypeError | UpstreamError

datatype data =
    DNull
  | DEmpty
  | DString string
  | DBootcamp oid bootcamp
  | DBootcamps "(oid \<times> bootcamp) list"
  | DCourse oid course
  | DCoursePopulated oid course "(oid \<times> (string \<times> string) list) option"

text \<open>
  What a handler does, in order: \<open>next(err)\<close>, \<open>res.status(n).json({success: true, count?,
  data})\<close>, and the two calls whose argument a claim is about: the geospatial
  \<open>Bootcamp.find\<close> and \<open>file.mv\<close>.
\<close>

datatype effect =
    Next exception
  | Json nat "nat option" data
  | GeoWithin centerSphere
  | Mv string

section \<open>Collaborators outside the controllers\<close>

text \<open>
  The document mapper's casts and validators, the generator of \<open>_id\<close>s, the geocoder, the
  geospatial index, the file sink, \<open>path.parse(_).ext\<close> and the upload configuration are
  not code of the controllers: the handlers take them as a parameter, and every theorem
  holds whatever they are. \<open>cast_user\<close> is what the bootcamp schema makes of a value
  given for its path \<open>user\<close>, in a document and in a query.
\<close>

text \<open>
  What \<open>file.mv(path, callback)\<close> does is the file sink's business: whether the file is
  at the path afterwards, and how often it calls the callback and with what. In
  \<open>mv_callbacks\<close> each call is its \<open>err\<close> argument: \<open>True\<close> for an error, \<open>False\<close> for none.
\<close>

record moved =
  mv_stored :: bool
  mv_callbacks :: "bool list"

record collaborators =
  castable :: "oid \<Rightarrow> bool"
  cast_user :: "jsvalue \<Rightarrow> jsvalue"
  bootcamp_valid :: "(oid \<times> bootcamp) list \<Rightarrow> bootcamp \<Rightarrow> bool"
  bootcamp_update_valid :: "body \<Rightarrow> bool"
  course_valid :: "(oid \<times> course) list \<Rightarrow> course \<Rightarrow> bool"
  course_update_valid :: "body \<Rightarrow> bool"
  new_id :: "oid list \<Rightarrow> oid"
  geocode :: "string \<Rightarrow> thrown + geopoint list"
  geoWithin :: "centerSphere \<Rightarrow> (oid \<times> bootcamp) list \<Rightarrow> thrown + (oid \<times> bootcamp) list"
  mv :: "string \<Rightarrow> uploaded_file \<Rightarrow> moved"
  path_ext :: "string \<Rightarrow> string"
  max_file_upload :: "string option"
  file_upload_path :: "string option"

subsection \<open>The model statics the handlers call\<close>

text \<open>
  A collection is the list of its documents, each under its \<open>_id\<close>. A static either
  resolves or throws; what makes the mapper throw (an id that does not cast, a validator
  that fails) is decided by the collaborators. Hooks and defaults that the schemas may
  declare are not modelled.
\<close>

definition findById ::
  "collaborators \<Rightarrow> (oid \<times> 'd) list \<Rightarrow> oid option \<Rightarrow> thrown + (oid \<times> 'd) option" where
  "findById M coll i =
     (case i of
        None \<Rightarrow> Inr None
      | Some k \<Rightarrow>
          if castable M k then Inr (map_option (Pair k) (map_of coll k)) else Inl CastError)"

text \<open>\<open>Bootcamp.findOne({ user: u })\<close>: the query value is cast as the path is.\<close>

definition findOne_user ::
  "collaborators \<Rightarrow> (oid \<times> bootcamp) list \<Rightarrow> jsvalue \<Rightarrow> (oid \<times> bootcamp) option" where
  "findOne_user M coll u = find (\<lambda>(k, b). b_user b = cast_user M u) coll"

text \<open>
  The cast of a path declared \<open>Types.ObjectId\<close> (\<open>CourseSchema\<close>): a string that casts
  becomes the \<open>ObjectId\<close> of that text, an \<open>ObjectId\<close> stays, nothing stays nothing.
\<close>

definition cast_ObjectId :: "collaborators \<Rightarrow> jsvalue \<Rightarrow> thrown + oid option" where
  "cast_ObjectId M v =
     (case v of
        Undefined \<Rightarrow> Inr None
      | Str s \<Rightarrow> if castable M s then Inr (Some s) else Inl CastError
      | ObjectId h \<Rightarrow> Inr (Some h))"

fun str_or_undefined :: "string option \<Rightarrow> jsvalue" where
  "str_or_undefined None = Undefined"
| "str_or_undefined (Some s) = Str s"

definition set_fields :: "(string \<times> string) list \<Rightarrow> (string \<times> string) list \<Rightarrow> (string \<times> string) list" where
  "set_fields new old = new @ filter (\<lambda>(f, v). f \<notin> set (map fst new)) old"

definition bootcamp_of_body :: "collaborators \<Rightarrow> body \<Rightarrow> bootcamp" where
  "bootcamp_of_body M b =
     \<lparr>b_user = cast_user M (body_user b), b_photo = body_photo b, b_fields = body_fields b\<rparr>"

definition bootcamp_set :: "collaborators \<Rightarrow> body \<Rightarrow> bootcamp \<Rightarrow> bootcamp" where
  "bootcamp_set M b d =
     \<lparr>b_user = (if body_user b = Undefined then b_user d else cast_user M (body_user b)),
      b_photo = (case body_photo b of None \<Rightarrow> b_photo d | Some p \<Rightarrow> Some p),
      b_fields = set_fields (body_fields b) (b_fields d)\<rparr>"

text \<open>\<open>Model.create(body)\<close>: the schema validates, the new document gets a new \<open>_id\<close>.\<close>

definition Bootcamp_create ::
  "collaborators \<Rightarrow> (oid \<times> bootcamp) list \<Rightarrow> body \<Rightarrow>
     thrown + ((oid \<times> bootcamp) \<times> (oid \<times> bootcamp) list)" where
  "Bootcamp_create M coll b =
     (let d = bootcamp_of_body M b; k = new_id M (map fst coll) in
      if \<not> bootcamp_valid M coll d then Inl ValidationError
      else if k \<in> set (map fst coll) then Inl DuplicateKey
      else Inr ((k, d), coll @ [(k, d)]))"

text \<open>
  \<open>Course.create(body)\<close>: \<open>user\<close> and \<open>bootcamp\<close> are cast to \<open>ObjectId\<close>s and are
  \<open>required\<close>; the validators of the other paths are the collaborators'.
\<close>

definition Course_create ::
  "collaborators \<Rightarrow> (oid \<times> course) list \<Rightarrow> body \<Rightarrow>
     thrown + ((oid \<times> course) \<times> (oid \<times> course) list)" where
  "Course_create M coll b =
     (case (cast_ObjectId M (body_user b),
            cast_ObjectId M (str_or_undefined (body_bootcamp b))) of
        (Inr (Some u), Inr (Some i)) \<Rightarrow>
          (let d = \<lparr>c_user = u, c_bootcamp = i, c_fields = body_fields b\<rparr>;
               k = new_id M (map fst coll)
           in if \<not> course_valid M coll d then Inl ValidationError
              else if k \<in> set (map fst coll) then Inl DuplicateKey
              else Inr ((k, d), coll @ [(k, d)]))
      | (Inl e, _) \<Rightarrow> Inl e
      | (_, Inl e) \<Rightarrow> Inl e
      | _ \<Rightarrow> Inl ValidationError)"

text \<open>
  \<open>Model.findByIdAndUpdate(id, body, {new: true, runValidators: v})\<close>: the updated document
  (or null), and the collection after it.
\<close>

definition Bootcamp_findByIdAndUpdate ::
  "collaborators \<Rightarrow> (oid \<times> bootcamp) list \<Rightarrow> oid option \<Rightarrow> body \<Rightarrow> bool \<Rightarrow>
     thrown + ((oid \<times> bootcamp) option \<times> (oid \<times> bootcamp) list)" where
  "Bootcamp_findByIdAndUpdate M coll i b runValidators =
     (case i of
        None \<Rightarrow> Inr (None, coll)
      | Some k \<Rightarrow>
          if \<not> castable M k then Inl CastError
          else if runValidators \<and> \<not> bootcamp_update_valid M b then Inl ValidationError
          else (case map_of coll k of
                  None \<Rightarrow> Inr (None, coll)
                | Some d \<Rightarrow>
                    Inr (Some (k, bootcamp_set M b d), AList.update k (bootcamp_set M b d) coll)))"

definition course_set :: "oid option \<Rightarrow> oid option \<Rightarrow> body \<Rightarrow> course \<Rightarrow> course" where
  "course_set u i b d =
     \<lparr>c_user = (case u of None \<Rightarrow> c_user d | Some h \<Rightarrow> h),
      c_bootcamp = (case i of None \<Rightarrow> c_bootcamp d | Some h \<Rightarrow> h),
      c_fields = set_fields (body_fields b) (c_fields d)\<rparr>"

definition Course_findByIdAndUpdate ::
  "collaborators \<Rightarrow> (oid \<times> course) list \<Rightarrow> oid option \<Rightarrow> body \<Rightarrow> bool \<Rightarrow>
     thrown + ((oid \<times> course) option \<times> (oid \<times> course) list)" where
  "Course_findByIdAndUpdate M coll i b runValidators =
     (case i of
        None \<Rightarrow> Inr (None, coll)
      | Some k \<Rightarrow>
          if \<not> castable M k then Inl CastError
          else (case (cast_ObjectId M (body_user b),
                      cast_ObjectId M (str_or_undefined (body_bootcamp b))) of
                  (Inr u, Inr j) \<Rightarrow>
                    if runValidators \<and> \<not> course_update_valid M b then Inl ValidationError
                    else (case map_of coll k of
                            None \<Rightarrow> Inr (None, coll)
                          | Some d \<Rightarrow>
                              Inr (Some (k, course_set u j b d),
                                   AList.update k (course_set u j b d) coll))
                | (Inl e, _) \<Rightarrow> Inl e
                | (_, Inl e) \<Rightarrow> Inl e))"

text \<open>\<open>populate({path: 'bootcamp', select: 'name description'})\<close> on a course.\<close>

definition populate_bootcamp ::
  "(oid \<times> bootcamp) list \<Rightarrow> course \<Rightarrow> (oid \<times> (string \<times> string) list) option" where
  "populate_bootcamp coll c =
     map_option
       (\<lambda>b. (c_bootcamp c, filter (\<lambda>(f, v). f = ''name'' \<or> f = ''description'') (b_fields b)))
       (map_of coll (c_bootcamp c))"

section \<open>The bootcamp controller\<close>

text \<open>
  Every handler is \<open>try { ... } catch (error) { next(new BadRequestException()) }\<close>: a
  call that throws ends the handler with that one more \<open>next\<close>. A handler returns what it
  did, in order, and the store it leaves.
\<close>

text \<open>\<open>req.user?.id\<close>.\<close>

fun id_of_user :: "principal option \<Rightarrow> jsvalue" where
  "id_of_user None = Undefined"
| "id_of_user (Some u) = user_id u"

text \<open>The guard of every write path: \<open>owner !== req.user?.id && req.user?.role !== 'admin'\<close>.\<close>

definition not_owner_nor_admin :: "jsvalue \<Rightarrow> principal option \<Rightarrow> bool" where
  "not_owner_nor_admin owner u =
     (strict_neq owner (id_of_user u) \<and> map_option role u \<noteq> Some ''admin'')"

definition createBootcamp :: "collaborators \<Rightarrow> store \<Rightarrow> request \<Rightarrow> effect list \<times> store" where
  "createBootcamp M st req =
     (let uid = id_of_user (req_user req);
          body' = (req_body req)\<lparr>body_user := uid\<rparr>;
          publishedBootcamp = findOne_user M (bootcamps st) uid
      in if publishedBootcamp \<noteq> None \<and> map_option role (req_user req) \<noteq> Some ''admin''
         then ([Next (BadRequestException (Some
                  (''The uuser with ID '' @ js_template uid @ '' has already published a bootcamp'')))],
               st)
         else (case Bootcamp_create M (bootcamps st) body' of
                 Inl e \<Rightarrow> ([Next (BadRequestException None)], st)
               | Inr ((k, b), coll) \<Rightarrow> ([Json 201 None (DBootcamp k b)], st\<lparr>bootcamps := coll\<rparr>)))"

definition updateBootcamp :: "collaborators \<Rightarrow> store \<Rightarrow> request \<Rightarrow> effect list \<times> store" where
  "updateBootcamp M st req =
     (case findById M (bootcamps st) (params_id req) of
        Inl e \<Rightarrow> ([Next (BadRequestException None)], st)
      | Inr None \<Rightarrow> ([Next (NotFoundException (params_id req))], st)
      | Inr (Some (k, bootcamp)) \<Rightarrow>
          if not_owner_nor_admin (b_user bootcamp) (req_user req)
          then ([Next (InvalidCredentialException (Some
                   (''User '' @ js_string (params_id req) @
                    '' is not authorized to upadte this bootcamp'')))], st)
          else (case Bootcamp_findByIdAndUpdate M (bootcamps st) (params_id req) (req_body req) True of
                  Inl e \<Rightarrow> ([Next (BadRequestException None)], st)
                | Inr (found, coll) \<Rightarrow>
                    ([Json 200 None (case found of None \<Rightarrow> DNull | Some (j, b) \<Rightarrow> DBootcamp j b)],
                     st\<lparr>bootcamps := coll\<rparr>)))"

definition deleteBootcamp :: "collaborators \<Rightarrow> store \<Rightarrow> request \<Rightarrow> effect list \<times> store" where
  "deleteBootcamp M st req =
     (case findById M (bootcamps st) (params_id req) of
        Inl e \<Rightarrow> ([Next (BadRequestException None)], st)
      | Inr None \<Rightarrow> ([Next (NotFoundException (params_id req))], st)
      | Inr (Some (k, bootcamp)) \<Rightarrow>
          if not_owner_nor_admin (b_user bootcamp) (req_user req)
          then ([Next (InvalidCredentialException (Some
                   (''User '' @ js_string (params_id req) @
                    '' is not authorized to delete this bootcamp'')))], st)
          else ([Json 200 None DEmpty], st\<lparr>bootcamps := AList.delete k (bootcamps st)\<rparr>))"


text \<open>The update of line 280: \<open>{ photo: file.name }\<close>.\<close>

definition photo_body :: "string \<Rightarrow> body" where
  "photo_body n =
     \<lparr>body_user = Undefined, body_bootcamp = None, body_photo = Some n, body_fields = []\<rparr>"

text \<open>
  The callback given to \<open>file.mv\<close> (lines 274 to 286): on an error it calls \<open>next\<close> with a
  \<open>ServerErrorException\<close>; otherwise it sets the photo field and answers with the name.
  It runs outside the handler's \<open>try\<close>: an update that throws there sends nothing.
\<close>

definition photo_callback ::
  "collaborators \<Rightarrow> request \<Rightarrow> string \<Rightarrow> bool \<Rightarrow> store \<Rightarrow> effect list \<times> store" where
  "photo_callback M req name err st =
     (if err then ([Next (ServerErrorException (Some ''Problem with file upload''))], st)
      else (case Bootcamp_findByIdAndUpdate M (bootcamps st) (params_id req)
                   (photo_body name) False of
              Inl e \<Rightarrow> ([], st)
            | Inr (found, coll) \<Rightarrow>
                ([Json 200 None (DString name)], st\<lparr>bootcamps := coll\<rparr>)))"

text \<open>The calls of a callback, one after the other.\<close>

fun each_call ::
  "(bool \<Rightarrow> store \<Rightarrow> effect list \<times> store) \<Rightarrow> bool list \<Rightarrow> store \<Rightarrow> effect list \<times> store" where
  "each_call cb [] st = ([], st)"
| "each_call cb (err # errs) st =
     (case cb err st of
        (fx, st') \<Rightarrow> (case each_call cb errs st' of (fx', st'') \<Rightarrow> (fx @ fx', st'')))"

text \<open>
  A file that the sink stores is at its path afterwards, in place of what was there.
\<close>

definition bootcampPhotoUpload :: "collaborators \<Rightarrow> store \<Rightarrow> request \<Rightarrow> effect list \<times> store" where
  "bootcampPhotoUpload M st req =
     (case findById M (bootcamps st) (params_id req) of
        Inl e \<Rightarrow> ([Next (BadRequestException None)], st)
      | Inr None \<Rightarrow> ([Next (NotFoundException (params_id req))], st)
      | Inr (Some (k, bootcamp)) \<Rightarrow>
          if not_owner_nor_admin (b_user bootcamp) (req_user req)
          then ([Next (InvalidCredentialException (Some
                   (''User '' @ js_string (params_id req) @
                    '' is not authorized to upadte this bootcamp'')))], st)
          else (case req_files req of
                  None \<Rightarrow> ([Next (BadRequestException (Some ''Please upload a file''))], st)
                | Some None \<Rightarrow> ([Next (BadRequestException None)], st)
                | Some (Some file) \<Rightarrow>
                    if \<not> prefix ''image'' (file_mimetype file)
                    then ([Next (BadRequestException (Some ''Please upload an image file''))], st)
                    else if js_gt (Num (real (file_size file)))
                              (parseInt (js_string (max_file_upload M)))
                    then ([Next (BadRequestException (Some
                             (''Please upload an image size less than '' @
                              js_string (max_file_upload M))))], st)
                    else (let name = ''photo_'' @ k @ path_ext M (file_name file);
                              dest = js_string (file_upload_path M) @ ''/'' @ name;
                              sink = mv M dest file;
                              moved = (if mv_stored sink
                                       then st\<lparr>uploads :=
                                              AList.update dest (file_data file) (uploads st)\<rparr>
                                       else st)
                          in case each_call (photo_callback M req name) (mv_callbacks sink) moved of
                               (fx, st') \<Rightarrow> (Mv dest # fx, st'))))"

section \<open>The course controller\<close>

text \<open>
  Here a missing document calls \<open>next(new NotFoundException(id))\<close> without \<open>return\<close>: the
  handler goes on with \<open>course\<close> (or \<open>bootcamp\<close>) null, read through \<open>?.\<close>.
\<close>

text \<open>\<open>course?.user\<close> and \<open>bootcamp?.user\<close>.\<close>

fun user_of_course :: "(oid \<times> course) option \<Rightarrow> jsvalue" where
  "user_of_course None = Undefined"
| "user_of_course (Some (k, c)) = ObjectId (c_user c)"

fun user_of_bootcamp :: "(oid \<times> bootcamp) option \<Rightarrow> jsvalue" where
  "user_of_bootcamp None = Undefined"
| "user_of_bootcamp (Some (k, b)) = b_user b"

definition getCourse :: "collaborators \<Rightarrow> store \<Rightarrow> request \<Rightarrow> effect list \<times> store" where
  "getCourse M st req =
     (case findById M (courses st) (params_id req) of
        Inl e \<Rightarrow> ([Next (BadRequestException None)], st)
      | Inr course \<Rightarrow>
          ((if course = None then [Next (NotFoundException (params_id req))] else []) @
           [Json 200 None
              (case course of
                 None \<Rightarrow> DNull
               | Some (k, c) \<Rightarrow> DCoursePopulated k c (populate_bootcamp (bootcamps st) c))],
           st))"

definition addCourse :: "collaborators \<Rightarrow> store \<Rightarrow> request \<Rightarrow> effect list \<times> store" where
  "addCourse M st req =
     (let body' = (req_body req)\<lparr>body_bootcamp := params_bootcampId req,
                                body_user := id_of_user (req_user req)\<rparr>
      in case findById M (bootcamps st) (params_bootcampId req) of
           Inl e \<Rightarrow> ([Next (BadRequestException None)], st)
         | Inr bootcamp \<Rightarrow>
             (let fx = (if bootcamp = None
                        then [Next (NotFoundException (params_bootcampId req))] else [])
              in if not_owner_nor_admin (user_of_bootcamp bootcamp) (req_user req)
                 then (fx @ [Next (InvalidCredentialException (Some
                          (''User '' @ js_string (params_id req) @
                           '' is not authorized to add a course to bootcamp '' @
                           js_string (map_option fst bootcamp))))], st)
                 else (case Course_create M (courses st) body' of
                         Inl e \<Rightarrow> (fx @ [Next (BadRequestException None)], st)
                       | Inr ((k, c), coll) \<Rightarrow>
                           (fx @ [Json 200 None (DCourse k c)], st\<lparr>courses := coll\<rparr>))))"

definition updateCourse :: "collaborators \<Rightarrow> store \<Rightarrow> request \<Rightarrow> effect list \<times> store" where
  "updateCourse M st req =
     (case findById M (courses st) (params_id req) of
        Inl e \<Rightarrow> ([Next (BadRequestException None)], st)
      | Inr course \<Rightarrow>
          (let fx = (if course = None then [Next (NotFoundException (params_id req))] else [])
           in if not_owner_nor_admin (user_of_course course) (req_user req)
              then (fx @ [Next (InvalidCredentialException (Some
                       (''User '' @ js_string (params_id req) @
                        '' is not authorized to update course '' @
                        js_string (map_option fst course))))], st)
              else (case Course_findByIdAndUpdate M (courses st) (params_id req) (req_body req) True of
                      Inl e \<Rightarrow> (fx @ [Next (BadRequestException None)], st)
                    | Inr (found, coll) \<Rightarrow>
                        (fx @ [Json 200 None
                                 (case found of None \<Rightarrow> DNull | Some (j, c) \<Rightarrow> DCourse j c)],
                         st\<lparr>courses := coll\<rparr>))))"

definition deleteCourse :: "collaborators \<Rightarrow> store \<Rightarrow> request \<Rightarrow> effect list \<times> store" where
  "deleteCourse M st req =
     (case findById M (courses st) (params_id req) of
        Inl e \<Rightarrow> ([Next (BadRequestException None)], st)
      | Inr course \<Rightarrow>
          (let fx = (if course = None then [Next (NotFoundException (params_id req))] else [])
           in if not_owner_nor_admin (user_of_course course) (req_user req)
              then (fx @ [Next (InvalidCredentialException (Some
                       (''User '' @ js_string (params_id req) @
                        '' is not authorized to update course '' @
                        js_string (map_option fst course))))], st)
              else (fx @ [Json 200 None DEmpty],
                    case course of
                      None \<Rightarrow> st
                    | Some (k, c) \<Rightarrow> st\<lparr>courses := AList.delete k (courses st)\<rparr>)))"

section \<open>The write paths, as the routers mount them\<close>

text \<open>
  \<open>PUT /bootcamps/:id\<close>, \<open>DELETE /bootcamps/:id\<close>, \<open>PUT /bootcamps/:id/photo\<close>,
  \<open>POST /bootcamps/:bootcampId/courses\<close>, \<open>PUT /courses/:id\<close> and \<open>DELETE /courses/:id\<close>.
\<close>

datatype write_op =
  UpdateBootcamp | DeleteBootcamp | BootcampPhotoUpload | AddCourse | UpdateCourse | DeleteCourse

fun run :: "write_op \<Rightarrow> collaborators \<Rightarrow> store \<Rightarrow> request \<Rightarrow> effect list \<times> store" where
  "run UpdateBootcamp = updateBootcamp"
| "run DeleteBootcamp = deleteBootcamp"
| "run BootcampPhotoUpload = bootcampPhotoUpload"
| "run AddCourse = addCourse"
| "run UpdateCourse = updateCourse"
| "run DeleteCourse = deleteCourse"

text \<open>
  The resource a write path fetches before its guard, as its \<open>_id\<close> and the value of its
  owner field: the bootcamp \<open>:id\<close> or \<open>:bootcampId\<close>, or the course \<open>:id\<close>. \<open>None\<close> when
  the lookup throws or finds nothing.
\<close>

fun fetched :: "write_op \<Rightarrow> collaborators \<Rightarrow> store \<Rightarrow> request \<Rightarrow> (oid \<times> jsvalue) option" where
  "fetched AddCourse M st req =
     (case findById M (bootcamps st) (params_bootcampId req) of
        Inr (Some (k, b)) \<Rightarrow> Some (k, b_user b) | _ \<Rightarrow> None)"
| "fetched UpdateCourse M st req =
     (case findById M (courses st) (params_id req) of
        Inr (Some (k, c)) \<Rightarrow> Some (k, ObjectId (c_user c)) | _ \<Rightarrow> None)"
| "fetched DeleteCourse M st req =
     (case findById M (courses st) (params_id req) of
        Inr (Some (k, c)) \<Rightarrow> Some (k, ObjectId (c_user c)) | _ \<Rightarrow> None)"
| "fetched _ M st req =
     (case findById M (bootcamps st) (params_id req) of
        Inr (Some (k, b)) \<Rightarrow> Some (k, b_user b) | _ \<Rightarrow> None)"

text \<open>A denial is \<open>next(new InvalidCredentialException(reason))\<close>.\<close>

fun is_denial :: "effect \<Rightarrow> bool" where
  "is_denial (Next (InvalidCredentialException m)) = True"
| "is_denial _ = False"

definition denied :: "effect list \<times> store \<Rightarrow> bool" where
  "denied r = list_ex is_denial (fst r)"

section \<open>The pagination executor\<close>

text \<open>
  Modelled from the spec: the middleware \<open>pagination-populate.middleware\<close> that the routers
  mount on the list routes and that fills \<open>res.resourceResults\<close> is not among the sources.
  The definitions follow sections 3 and 4.2 of the specification: filters, then field
  selection, then sort, then skip \<open>(page - 1) * limit\<close> and take \<open>limit\<close>; \<open>previous\<close> is
  present iff \<open>page > 1\<close>, \<open>next\<close> iff \<open>page * limit\<close> is below the total matching count.
  Items are records of integer fields; the expansion of relations is left out.
\<close>

datatype comparison = Equals int | GreaterThan int | GreaterOrEqual int | LessThan int
  | LessOrEqual int | InSet "int list"

type_synonym item = "(string \<times> int) list"

record descriptor =
  filters :: "(string \<times> comparison) list"
  sortFields :: "(string \<times> bool) list"
  selectFields :: "string list"
  page :: nat
  limit :: nat

record pagination =
  pg_previous :: "(nat \<times> nat) option"
  pg_next :: "(nat \<times> nat) option"

record page_of_items =
  items :: "item list"
  count :: nat
  pagination :: pagination

fun satisfies :: "comparison \<Rightarrow> int \<Rightarrow> bool" where
  "satisfies (Equals v) x = (x = v)"
| "satisfies (GreaterThan v) x = (v < x)"
| "satisfies (GreaterOrEqual v) x = (v \<le> x)"
| "satisfies (LessThan v) x = (x < v)"
| "satisfies (LessOrEqual v) x = (x \<le> v)"
| "satisfies (InSet vs) x = (x \<in> set vs)"

definition matches :: "descriptor \<Rightarrow> item \<Rightarrow> bool" where
  "matches d it =
     list_all (\<lambda>(f, c). case map_of it f of None \<Rightarrow> False | Some x \<Rightarrow> satisfies c x) (filters d)"

definition select_fields :: "descriptor \<Rightarrow> item \<Rightarrow> item" where
  "select_fields d it =
     (if selectFields d = [] then it else filter (\<lambda>(f, x). f \<in> set (selectFields d)) it)"

text \<open>The second component of a sort field is its direction: \<open>True\<close> is descending.\<close>

fun opt_less :: "int option \<Rightarrow> int option \<Rightarrow> bool" where
  "opt_less None (Some y) = True"
| "opt_less (Some x) (Some y) = (x < y)"
| "opt_less _ None = False"

fun comes_first :: "(string \<times> bool) list \<Rightarrow> item \<Rightarrow> item \<Rightarrow> bool" where
  "comes_first [] a b = True"
| "comes_first ((f, descending) # fs) a b =
     (if map_of a f = map_of b f then comes_first fs a b
      else if descending then opt_less (map_of b f) (map_of a f)
      else opt_less (map_of a f) (map_of b f))"

fun insert_sorted :: "(string \<times> bool) list \<Rightarrow> item \<Rightarrow> item list \<Rightarrow> item list" where
  "insert_sorted fs a [] = [a]"
| "insert_sorted fs a (b # bs) =
     (if comes_first fs a b then a # b # bs else b # insert_sorted fs a bs)"

definition sort_items :: "(string \<times> bool) list \<Rightarrow> item list \<Rightarrow> item list" where
  "sort_items fs xs = foldr (insert_sorted fs) xs []"

definition matching :: "descriptor \<Rightarrow> item list \<Rightarrow> item list" where
  "matching d coll = sort_items (sortFields d) (map (select_fields d) (filter (matches d) coll))"

text \<open>
  Modelled from the spec: \<open>execute(descriptor, collection)\<close> of section 4.2, the function
  of the missing pagination middleware that computes the page and its metadata.
\<close>

definition execute :: "descriptor \<Rightarrow> item list \<Rightarrow> page_of_items" where
  "execute d coll =
     (let found = matching d coll;
          total = length found;
          shown = take (limit d) (drop ((page d - 1) * limit d) found)
      in \<lparr>items = shown,
          count = length shown,
          pagination =
            \<lparr>pg_previous = (if page d > 1 then Some (page d - 1, limit d) else None),
             pg_next = (if page d * limit d < total then Some (page d + 1, limit d) else None)\<rparr>\<rparr>)"

section \<open>Sample collaborators, store and requests\<close>

text \<open>
  One concrete environment on which the theorems below are run: identifiers are
  hexadecimal strings, both schemas cast \<open>user\<close> to an \<open>ObjectId\<close> and require it, the
  geospatial index refuses a radius that is not a non-negative number, the file sink
  stores every file and calls back once without an error, and the upload limit is
  1000000 bytes. The principals carry their id as a string, as the \<open>id\<close> getter
  of a document gives it.
\<close>

definition sample_ext :: "string \<Rightarrow> string" where
  "sample_ext n =
     (if CHR ''.'' \<in> set n then CHR ''.'' # rev (takeWhile (\<lambda>c. c \<noteq> CHR ''.'') (rev n)) else [])"

definition sample_geoWithin ::
  "centerSphere \<Rightarrow> (oid \<times> bootcamp) list \<Rightarrow> thrown + (oid \<times> bootcamp) list" where
  "sample_geoWithin region coll =
     (case cs_radius region of
        NaN \<Rightarrow> Inl UpstreamError
      | Num r \<Rightarrow> if r < 0 then Inl UpstreamError else Inr coll)"

definition sample_cast_user :: "jsvalue \<Rightarrow> jsvalue" where
  "sample_cast_user v = (case id_of v of None \<Rightarrow> Undefined | Some h \<Rightarrow> ObjectId h)"

definition sample :: collaborators where
  "sample =
     \<lparr>castable = (\<lambda>k. k \<noteq> [] \<and> list_all (is_digit 16) k),
      cast_user = sample_cast_user,
      bootcamp_valid = (\<lambda>coll d. b_user d \<noteq> Undefined),
      bootcamp_update_valid = (\<lambda>b. True),
      course_valid = (\<lambda>coll c. True),
      course_update_valid = (\<lambda>b. True),
      new_id = (\<lambda>ks. ''f'' @ dec (length ks)),
      geocode = (\<lambda>z. if z = [] then Inl UpstreamError
                      else Inr [\<lparr>latitude = 42, longitude = - 71\<rparr>]),
      geoWithin = sample_geoWithin,
      mv = (\<lambda>dest f. \<lparr>mv_stored = True, mv_callbacks = [False]\<rparr>),
      path_ext = sample_ext,
      max_file_upload = Some ''1000000'',
      file_upload_path = Some ''./public/uploads''\<rparr>"

definition admin :: principal where
  "admin = \<lparr>user_id = Str ''a1'', role = ''admin''\<rparr>"

definition publisher :: principal where
  "publisher = \<lparr>user_id = Str ''e1'', role = ''publisher''\<rparr>"

definition stranger :: principal where
  "stranger = \<lparr>user_id = Str ''e2'', role = ''publisher''\<rparr>"

text \<open>The publisher \<open>e1\<close> owns the bootcamp \<open>b1\<close> and its course \<open>c1\<close>.\<close>

definition store0 :: store where
  "store0 =
     \<lparr>bootcamps = [(''b1'', \<lparr>b_user = ObjectId ''e1'', b_photo = None,
                              b_fields = [(''name'', ''Devworks'')]\<rparr>)],
      courses = [(''c1'', \<lparr>c_user = ''e1'', c_bootcamp = ''b1'',
                           c_fields = [(''title'', ''Web'')]\<rparr>)],
      uploads = []\<rparr>"

text \<open>The sample store after a first photo \<open>logo.png\<close> was uploaded to \<open>b1\<close>.\<close>

definition store1 :: store where
  "store1 = store0
     \<lparr>bootcamps := [(''b1'', \<lparr>b_user = ObjectId ''e1'', b_photo = Some ''photo_b1.png'',
                              b_fields = [(''name'', ''Devworks'')]\<rparr>)],
      uploads := [(''./public/uploads/photo_b1.png'', ''logo'')]\<rparr>"

definition empty_body :: body where
  "empty_body =
     \<lparr>body_user = Undefined, body_bootcamp = None, body_photo = None, body_fields = []\<rparr>"

text \<open>
  A request of principal \<open>u\<close> with an empty body: on a route without parameters, and on
  the route parameter \<open>:id = i\<close>.
\<close>

definition request_by :: "principal \<Rightarrow> request" where
  "request_by u =
     \<lparr>params_id = None, params_bootcampId = None, params_zipcode = [], params_distance = [],
      req_user = Some u, req_body = empty_body, req_files = None\<rparr>"

definition request_on :: "principal \<Rightarrow> string \<Rightarrow> request" where
  "request_on u i = (request_by u)\<lparr>params_id := Some i\<rparr>"

text \<open>An upload of file \<open>f\<close> to \<open>PUT /bootcamps/i/photo\<close>.\<close>

definition upload_request :: "principal \<Rightarrow> string \<Rightarrow> uploaded_file \<Rightarrow> request" where
  "upload_request u i f = (request_on u i)\<lparr>req_files := Some (Some f)\<rparr>"


text \<open>\<open>POST /bootcamps/i/courses\<close> by principal \<open>u\<close>.\<close>

definition course_request :: "principal \<Rightarrow> string \<Rightarrow> request" where
  "course_request u i =
     \<lparr>params_id = None, params_bootcampId = Some i, params_zipcode = [], params_distance = [],
      req_user = Some u,
      req_body = empty_body\<lparr>body_fields := [(''title'', ''Testing'')]\<rparr>,
      req_files = None\<rparr>"

text \<open>
  The scenario of the specification: five items match \<open>tuition[gte]=1000\<close> (a sixth does
  not), sorted by \<open>-tuition\<close>, \<open>limit=2\<close>, \<open>page=2\<close>.
\<close>

definition six_items :: "item list" where
  "six_items = [[(''tuition'', 3000)], [(''tuition'', 1000)], [(''tuition'', 5000)],
                [(''tuition'', 2000)], [(''tuition'', 4000)], [(''tuition'', 500)]]"

definition second_page :: descriptor where
  "second_page =
     \<lparr>filters = [(''tuition'', GreaterOrEqual 1000)], sortFields = [(''tuition'', True)],
      selectFields = [], page = 2, limit = 2\<rparr>"

section \<open>Facts about the builtins\<close>













lemma findOne_user_None:
  "(findOne_user M coll u = None) = (\<not> (\<exists>k b. (k, b) \<in> set coll \<and> b_user b = cast_user M u))"
  by (auto simp: findOne_user_def find_None_iff)

lemma findById_Some_id:
  "findById M coll i = Inr (Some (k, d)) \<Longrightarrow> i = Some k"
  by (auto simp: findById_def split: option.splits if_splits)

lemma fetched_photo:
  "fetched BootcampPhotoUpload M st req = Some (k, owner) \<Longrightarrow>
   \<exists>b. findById M (bootcamps st) (params_id req) = Inr (Some (k, b)) \<and> b_user b = owner"
  by (auto split: sum.splits option.splits)

lemma length_insert_sorted: "length (insert_sorted fs a xs) = Suc (length xs)"
  by (induction xs) auto

lemma length_sort_items: "length (sort_items fs xs) = length xs"
  by (induction xs) (auto simp: sort_items_def length_insert_sorted)

lemma length_matching: "length (matching d coll) = length (filter (matches d) coll)"
  by (simp add: matching_def length_sort_items)

text \<open>The builtins on the sample inputs.\<close>

lemma dec_1: "dec (Suc 0) = ''1''"
  by code_simp


lemmas parseInt_simps = parseInt_def is_space_def is_digit_def digit_value_def digits_value_def

lemma parseInt_1000000: "parseInt ''1000000'' = Num 1000000"
  by (simp add: parseInt_simps)



lemmas sample_simps =
  sample_def store0_def request_on_def request_by_def empty_body_def findById_def
  is_digit_def digit_value_def

section \<open>Ownership on the write paths\<close>

text \<open>
  What the guard does on the six write paths (update, delete and photo upload of a
  bootcamp, adding a course to a bootcamp, update and delete of a course), for the
  resource the handler fetched: it denies exactly when the owner value and
  \<open>req.user?.id\<close> are not identical and the role is not admin; a denial is the only thing
  the handler then does, and the store stays as it was.
\<close>

lemma photo_callback_no_denial:
  "photo_callback M req name err st = (fx, st') \<Longrightarrow> \<not> list_ex is_denial fx"
  by (auto simp: photo_callback_def split: if_splits sum.splits prod.splits)

lemma each_call_no_denial:
  "each_call (photo_callback M req name) errs st = (fx, st') \<Longrightarrow> \<not> list_ex is_denial fx"
proof (induction errs arbitrary: st fx st')
  case Nil
  then show ?case by simp
next
  case (Cons err errs)
  obtain fx1 st1 where 1: "photo_callback M req name err st = (fx1, st1)"
    by (cases "photo_callback M req name err st")
  obtain fx2 st2 where 2: "each_call (photo_callback M req name) errs st1 = (fx2, st2)"
    by (cases "each_call (photo_callback M req name) errs st1")
  from Cons.prems 1 2 have "fx = fx1 @ fx2" by simp
  with photo_callback_no_denial [OF 1] Cons.IH [OF 2] show ?case by simp
qed

lemma denied_iff_guard:
  assumes "fetched op M st req = Some (k, owner)"
  shows "denied (run op M st req) = not_owner_nor_admin owner (req_user req)"
  using assms
  by (cases op)
     (auto simp: denied_def updateBootcamp_def deleteBootcamp_def bootcampPhotoUpload_def
                 addCourse_def updateCourse_def deleteCourse_def Let_def
           dest: each_call_no_denial
           split: sum.splits option.splits prod.splits)

lemma denial_names_resource:
  assumes "fetched op M st req = Some (k, owner)" and "denied (run op M st req)"
  shows "\<exists>before after.
           run op M st req = ([Next (InvalidCredentialException (Some (before @ k @ after)))], st)"
proof -
  have guard: "not_owner_nor_admin owner (req_user req)"
    using assms denied_iff_guard by simp
  have bootcamp_op: ?thesis
    if f: "findById M (bootcamps st) (params_id req) = Inr (Some (k, b))" "b_user b = owner"
      and op: "op = UpdateBootcamp \<or> op = DeleteBootcamp \<or> op = BootcampPhotoUpload" for b
  proof -
    have id: "params_id req = Some k" using f(1) by (rule findById_Some_id)
    have "\<exists>after. run op M st req =
        ([Next (InvalidCredentialException (Some (''User '' @ k @ after)))], st)"
      using op f id guard
      by (auto simp: updateBootcamp_def deleteBootcamp_def bootcampPhotoUpload_def)
    then show ?thesis by blast
  qed
  have course_op: ?thesis
    if f: "findById M (courses st) (params_id req) = Inr (Some (k, c))" "ObjectId (c_user c) = owner"
      and op: "op = UpdateCourse \<or> op = DeleteCourse" for c
  proof -
    have id: "params_id req = Some k" using f(1) by (rule findById_Some_id)
    have "\<exists>after. run op M st req =
        ([Next (InvalidCredentialException (Some (''User '' @ k @ after)))], st)"
      using op f id guard
      by (auto simp: updateCourse_def deleteCourse_def)
    then show ?thesis by blast
  qed
  show ?thesis
  proof (cases op)
    case AddCourse
    with assms(1) obtain b where
      f: "findById M (bootcamps st) (params_bootcampId req) = Inr (Some (k, b))" "b_user b = owner"
      by (auto split: sum.splits option.splits)
    have "run op M st req =
        ([Next (InvalidCredentialException (Some
            ((''User '' @ js_string (params_id req) @
              '' is not authorized to add a course to bootcamp '') @ k @ [])))], st)"
      using AddCourse f guard by (simp add: addCourse_def)
    then show ?thesis by blast
  next
    case UpdateBootcamp
    with assms(1) bootcamp_op show ?thesis
      by (auto split: sum.splits option.splits)
  next
    case DeleteBootcamp
    with assms(1) bootcamp_op show ?thesis
      by (auto split: sum.splits option.splits)
  next
    case BootcampPhotoUpload
    with assms(1) bootcamp_op show ?thesis
      by (auto split: sum.splits option.splits)
  next
    case UpdateCourse
    with assms(1) course_op show ?thesis
      by (auto split: sum.splits option.splits)
  next
    case DeleteCourse
    with assms(1) course_op show ?thesis
      by (auto split: sum.splits option.splits)
  qed
qed

text \<open>
  The owner field of a course is an \<open>ObjectId\<close> object, which is identical to nothing
  that comes with the request: on the two course paths the guard lets the admin through
  and nobody else, whoever owns the course.
\<close>

lemma strict_neq_ObjectId: "strict_neq (ObjectId h) v"
  by (cases v) simp_all

lemma course_write_denied_iff_not_admin:
  assumes "op = UpdateCourse \<or> op = DeleteCourse"
    and "fetched op M st req = Some (k, owner)"
  shows "denied (run op M st req) = (map_option role (req_user req) \<noteq> Some ''admin'')"
proof -
  obtain h where "owner = ObjectId h"
    using assms by (auto split: sum.splits option.splits)
  then show ?thesis
    using denied_iff_guard [OF assms(2)]
    by (simp add: not_owner_nor_admin_def strict_neq_ObjectId)
qed

text \<open>
  C1. A principal who owns the resource should be allowed a mutating operation on it.
  The publisher \<open>e1\<close> owns the course \<open>c1\<close>: the owner field of \<open>c1\<close> and the id of the
  publisher denote the same user. Yet \<open>updateCourse\<close> and \<open>deleteCourse\<close> deny the
  publisher, because the \<open>ObjectId\<close> in \<open>course.user\<close> is not identical to the string in
  \<open>req.user.id\<close>; the admin passes.
\<close>

theorem course_owner_denied:
  "fetched UpdateCourse sample store0 (request_on publisher ''c1'') = Some (''c1'', ObjectId ''e1'')
   \<and> id_of (ObjectId ''e1'') = id_of (user_id publisher)
   \<and> updateCourse sample store0 (request_on publisher ''c1'') =
       ([Next (InvalidCredentialException (Some
           ''User c1 is not authorized to update course c1''))], store0)
   \<and> deleteCourse sample store0 (request_on publisher ''c1'') =
       ([Next (InvalidCredentialException (Some
           ''User c1 is not authorized to update course c1''))], store0)
   \<and> deleteCourse sample store0 (request_on admin ''c1'') =
       ([Json 200 None DEmpty], store0\<lparr>courses := []\<rparr>)"
  by (simp add: updateCourse_def deleteCourse_def sample_simps publisher_def admin_def
        not_owner_nor_admin_def)

section \<open>One bootcamp per owner\<close>

text \<open>
  C2. When the principal \<open>U\<close> already owns a bootcamp (the collection holds one whose
  \<open>user\<close> is what the schema makes of the id of \<open>U\<close>) and is not an admin,
  \<open>createBootcamp\<close> denies the creation (a \<open>BadRequestException\<close> naming \<open>U\<close>) and leaves
  the store as it was. When \<open>U\<close> owns none, or is an admin, the creation proceeds:
  \<open>Bootcamp.create\<close> runs on the body with \<open>user\<close> set to the id of \<open>U\<close>, and either stores
  the new bootcamp \<open>d\<close> under the new id \<open>k\<close> and answers 201, or throws and the handler
  answers the plain \<open>BadRequestException\<close>.
\<close>

theorem createBootcamp_one_per_owner:
  assumes "req_user req = Some U"
    and "d = bootcamp_of_body M ((req_body req)\<lparr>body_user := user_id U\<rparr>)"
    and "k = new_id M (map fst (bootcamps st))"
  shows "((\<exists>j b. (j, b) \<in> set (bootcamps st) \<and> b_user b = cast_user M (user_id U))
            \<and> role U \<noteq> ''admin''
            \<longrightarrow> createBootcamp M st req =
                 ([Next (BadRequestException (Some (''The uuser with ID '' @ js_template (user_id U) @
                     '' has already published a bootcamp'')))], st))
       \<and> ((\<not> (\<exists>j b. (j, b) \<in> set (bootcamps st) \<and> b_user b = cast_user M (user_id U))
             \<or> role U = ''admin'')
            \<longrightarrow> createBootcamp M st req =
                 (if bootcamp_valid M (bootcamps st) d \<and> k \<notin> set (map fst (bootcamps st))
                  then ([Json 201 None (DBootcamp k d)], st\<lparr>bootcamps := bootcamps st @ [(k, d)]\<rparr>)
                  else ([Next (BadRequestException None)], st)))
       \<and> b_user d = cast_user M (user_id U)"
proof -
  let ?owns = "\<exists>j b. (j, b) \<in> set (bootcamps st) \<and> b_user b = cast_user M (user_id U)"
  have published: "(findOne_user M (bootcamps st) (user_id U) \<noteq> None) = ?owns"
    by (simp add: findOne_user_None)
  have create: "Bootcamp_create M (bootcamps st) ((req_body req)\<lparr>body_user := user_id U\<rparr>) =
      (if \<not> bootcamp_valid M (bootcamps st) d then Inl ValidationError
       else if k \<in> set (map fst (bootcamps st)) then Inl DuplicateKey
       else Inr ((k, d), bootcamps st @ [(k, d)]))"
    using assms(2,3) by (simp add: Bootcamp_create_def Let_def)
  have owner: "b_user d = cast_user M (user_id U)"
    using assms(2) by (simp add: bootcamp_of_body_def)
  show ?thesis
  proof (cases "?owns \<and> role U \<noteq> ''admin''")
    case True
    then show ?thesis
      using assms(1) published owner by (simp add: createBootcamp_def Let_def)
  next
    case False
    then have "\<not> (findOne_user M (bootcamps st) (user_id U) \<noteq> None \<and> role U \<noteq> ''admin'')"
      using published by blast
    then have "createBootcamp M st req =
        (case Bootcamp_create M (bootcamps st) ((req_body req)\<lparr>body_user := user_id U\<rparr>) of
           Inl e \<Rightarrow> ([Next (BadRequestException None)], st)
         | Inr ((j, b), coll) \<Rightarrow> ([Json 201 None (DBootcamp j b)], st\<lparr>bootcamps := coll\<rparr>))"
      using assms(1) by (auto simp: createBootcamp_def Let_def)
    with False owner show ?thesis
      by (auto simp: create)
  qed
qed

text \<open>
  On the sample store the publisher \<open>e1\<close> owns \<open>b1\<close>: denied. The stranger \<open>e2\<close> owns
  nothing: created. An admin with the id \<open>e1\<close>: created although \<open>e1\<close> owns \<open>b1\<close>.
\<close>

theorem createBootcamp_one_per_owner_witness:
  "createBootcamp sample store0 (request_by publisher) =
     ([Next (BadRequestException (Some ''The uuser with ID e1 has already published a bootcamp''))],
      store0)
   \<and> createBootcamp sample store0 (request_by stranger) =
     ([Json 201 None (DBootcamp ''f1'' \<lparr>b_user = ObjectId ''e2'', b_photo = None, b_fields = []\<rparr>)],
      store0\<lparr>bootcamps := bootcamps store0 @
         [(''f1'', \<lparr>b_user = ObjectId ''e2'', b_photo = None, b_fields = []\<rparr>)]\<rparr>)
   \<and> createBootcamp sample store0 (request_by (publisher\<lparr>role := ''admin''\<rparr>)) =
     ([Json 201 None (DBootcamp ''f1'' \<lparr>b_user = ObjectId ''e1'', b_photo = None, b_fields = []\<rparr>)],
      store0\<lparr>bootcamps := bootcamps store0 @
         [(''f1'', \<lparr>b_user = ObjectId ''e1'', b_photo = None, b_fields = []\<rparr>)]\<rparr>)"
proof -
  have u: "req_user (request_by u) = Some u" for u
    by (simp add: request_by_def)
  note t = createBootcamp_one_per_owner [where M = sample and st = store0, OF u refl refl]
  note defs = store0_def sample_def sample_cast_user_def js_template_def request_by_def
    empty_body_def bootcamp_of_body_def dec_1
  have 1: "createBootcamp sample store0 (request_by publisher) =
     ([Next (BadRequestException (Some ''The uuser with ID e1 has already published a bootcamp''))],
      store0)"
    using t [of publisher] by (simp add: publisher_def defs)
  have 2: "createBootcamp sample store0 (request_by stranger) =
     ([Json 201 None (DBootcamp ''f1'' \<lparr>b_user = ObjectId ''e2'', b_photo = None, b_fields = []\<rparr>)],
      store0\<lparr>bootcamps := bootcamps store0 @
         [(''f1'', \<lparr>b_user = ObjectId ''e2'', b_photo = None, b_fields = []\<rparr>)]\<rparr>)"
    using t [of stranger] by (simp add: stranger_def defs)
  have 3: "createBootcamp sample store0 (request_by (publisher\<lparr>role := ''admin''\<rparr>)) =
     ([Json 201 None (DBootcamp ''f1'' \<lparr>b_user = ObjectId ''e1'', b_photo = None, b_fields = []\<rparr>)],
      store0\<lparr>bootcamps := bootcamps store0 @
         [(''f1'', \<lparr>b_user = ObjectId ''e1'', b_photo = None, b_fields = []\<rparr>)]\<rparr>)"
    using t [of "publisher\<lparr>role := ''admin''\<rparr>"] by (simp add: publisher_def defs)
  from 1 2 3 show ?thesis by simp
qed

section \<open>The upload checks\<close>

text \<open>
  C3, as the code has it. Once the bootcamp is fetched and the principal passes the guard,
  and with a configured maximum that reads as the number \<open>m\<close>, \<open>bootcampPhotoUpload\<close>
  rejects (a \<open>BadRequestException\<close>, the store untouched) exactly when \<open>req.files\<close> or its
  entry \<open>file\<close> is absent, or the mimetype does not begin with \<open>image\<close> (without the
  slash), or the size is strictly above \<open>m\<close>.
\<close>

theorem upload_rejected_iff:
  assumes "fetched BootcampPhotoUpload M st req = Some (k, owner)"
    and "\<not> not_owner_nor_admin owner (req_user req)"
    and "parseInt (js_string (max_file_upload M)) = Num m"
  shows "(\<exists>reason. bootcampPhotoUpload M st req = ([Next (BadRequestException reason)], st))
       = (case req_files req of
            None \<Rightarrow> True
          | Some None \<Rightarrow> True
          | Some (Some file) \<Rightarrow>
              \<not> prefix ''image'' (file_mimetype file) \<or> m < real (file_size file))"
proof -
  obtain b where b: "findById M (bootcamps st) (params_id req) = Inr (Some (k, b))" "b_user b = owner"
    using fetched_photo [OF assms(1)] by blast
  show ?thesis
    using b assms(2,3)
    by (auto simp: bootcampPhotoUpload_def Let_def split: option.splits sum.splits prod.splits)
qed

text \<open>
  The three cases of the specification, with the maximum 1000000: \<open>image/png\<close> of exactly
  the maximum is accepted, one byte more is rejected, \<open>text/plain\<close> is rejected.
\<close>

theorem upload_rejected_iff_witness:
  "\<not> (\<exists>reason. bootcampPhotoUpload sample store0 (upload_request admin ''b1''
          \<lparr>file_name = ''logo.png'', file_mimetype = ''image/png'', file_size = 1000000,
           file_data = ''logo''\<rparr>)
        = ([Next (BadRequestException reason)], store0))
   \<and> (\<exists>reason. bootcampPhotoUpload sample store0 (upload_request admin ''b1''
          \<lparr>file_name = ''logo.png'', file_mimetype = ''image/png'', file_size = 1000001,
           file_data = ''logo''\<rparr>)
        = ([Next (BadRequestException reason)], store0))
   \<and> (\<exists>reason. bootcampPhotoUpload sample store0 (upload_request admin ''b1''
          \<lparr>file_name = ''notes.txt'', file_mimetype = ''text/plain'', file_size = 1,
           file_data = ''notes''\<rparr>)
        = ([Next (BadRequestException reason)], store0))"
proof -
  have f: "fetched BootcampPhotoUpload sample store0 (upload_request admin ''b1'' x)
      = Some (''b1'', ObjectId ''e1'')" for x
    by (simp add: upload_request_def sample_simps)
  have g: "\<not> not_owner_nor_admin (ObjectId ''e1'') (req_user (upload_request admin ''b1'' x))" for x
    by (simp add: upload_request_def request_on_def request_by_def admin_def
          not_owner_nor_admin_def)
  have m: "parseInt (js_string (max_file_upload sample)) = Num 1000000"
    by (simp add: sample_def parseInt_1000000)
  note t = upload_rejected_iff [OF f g m]
  show ?thesis
    by (simp add: t) (simp add: upload_request_def)
qed

text \<open>
  The claim as stated asks for the prefix \<open>image/\<close>. The handler tests the prefix \<open>image\<close>:
  a file of mimetype \<open>imagex/png\<close> is stored and becomes the bootcamp's photo.
\<close>

theorem upload_mimetype_counterexample:
  "\<not> prefix ''image/'' ''imagex/png''
   \<and> bootcampPhotoUpload sample store0 (upload_request admin ''b1''
        \<lparr>file_name = ''logo.png'', file_mimetype = ''imagex/png'', file_size = 10,
         file_data = ''logo''\<rparr>)
     = ([Mv ''./public/uploads/photo_b1.png'', Json 200 None (DString ''photo_b1.png'')], store1)"
  by (simp add: bootcampPhotoUpload_def photo_callback_def upload_request_def sample_simps
        store1_def admin_def not_owner_nor_admin_def parseInt_1000000 sample_ext_def
        Bootcamp_findByIdAndUpdate_def photo_body_def bootcamp_set_def set_fields_def Let_def)

section \<open>The name of an uploaded photo\<close>

text \<open>Setting the photo of a bootcamp changes its photo and nothing else of it.\<close>

lemma bootcamp_set_photo: "bootcamp_set M (photo_body name) b = b\<lparr>b_photo := Some name\<rparr>"
  by (simp add: bootcamp_set_def photo_body_def set_fields_def)

text \<open>
  C7, as the code has it. An upload to the bootcamp \<open>k\<close> (stored as \<open>b\<close>) passes the guard
  and the checks, and the file sink stores the file and calls back once, without an
  error. Then the assigned file name is \<open>photo_\<close>, then \<open>k\<close>, then the extension of the
  original name; the handler moves the file to that name under the upload path and
  answers with the name; afterwards the upload directory holds the new file at that path,
  in place of what was there, and every other path of it holds what it held; the bootcamp
  \<open>k\<close> is \<open>b\<close> with its \<open>photo\<close> field set to the name, whatever it was before, and
  every other bootcamp and every course is what it was. The path depends on \<open>k\<close> and
  the extension only: an upload with the same extension replaces the earlier file, one
  with another extension is stored beside it.
\<close>

theorem upload_assigned_name:
  assumes "params_id req = Some k" and "castable M k" and "map_of (bootcamps st) k = Some b"
    and "\<not> not_owner_nor_admin (b_user b) (req_user req)"
    and "req_files req = Some (Some file)"
    and "prefix ''image'' (file_mimetype file)"
    and "\<not> js_gt (Num (real (file_size file))) (parseInt (js_string (max_file_upload M)))"
    and "name = ''photo_'' @ k @ path_ext M (file_name file)"
    and "dest = js_string (file_upload_path M) @ ''/'' @ name"
    and "mv M dest file = \<lparr>mv_stored = True, mv_callbacks = [False]\<rparr>"
  shows "bootcampPhotoUpload M st req =
           ([Mv dest, Json 200 None (DString name)],
            st\<lparr>uploads := AList.update dest (file_data file) (uploads st),
               bootcamps := AList.update k (b\<lparr>b_photo := Some name\<rparr>) (bootcamps st)\<rparr>)
       \<and> map_of (uploads (snd (bootcampPhotoUpload M st req)))
           = (map_of (uploads st))(dest \<mapsto> file_data file)
       \<and> map_of (bootcamps (snd (bootcampPhotoUpload M st req)))
           = (map_of (bootcamps st))(k \<mapsto> b\<lparr>b_photo := Some name\<rparr>)
       \<and> map fst (bootcamps (snd (bootcampPhotoUpload M st req))) = map fst (bootcamps st)
       \<and> courses (snd (bootcampPhotoUpload M st req)) = courses st"
proof -
  have find: "findById M (bootcamps st) (params_id req) = Inr (Some (k, b))"
    using assms(1-3) by (simp add: findById_def)
  have upd: "Bootcamp_findByIdAndUpdate M (bootcamps st') (params_id req) (photo_body name) False
      = Inr (Some (k, b\<lparr>b_photo := Some name\<rparr>),
             AList.update k (b\<lparr>b_photo := Some name\<rparr>) (bootcamps st))"
    if "bootcamps st' = bootcamps st" for st'
    using assms(1-3) that by (simp add: Bootcamp_findByIdAndUpdate_def bootcamp_set_photo)
  have callback: "photo_callback M req name False
        (st\<lparr>uploads := AList.update dest (file_data file) (uploads st)\<rparr>)
      = ([Json 200 None (DString name)],
         st\<lparr>uploads := AList.update dest (file_data file) (uploads st),
            bootcamps := AList.update k (b\<lparr>b_photo := Some name\<rparr>) (bootcamps st)\<rparr>)"
    by (simp add: photo_callback_def upd)
  have result: "bootcampPhotoUpload M st req =
           ([Mv dest, Json 200 None (DString name)],
            st\<lparr>uploads := AList.update dest (file_data file) (uploads st),
               bootcamps := AList.update k (b\<lparr>b_photo := Some name\<rparr>) (bootcamps st)\<rparr>)"
    using find assms(4-10) callback by (simp add: bootcampPhotoUpload_def Let_def)
  have keys: "map fst (AList.update k (b\<lparr>b_photo := Some name\<rparr>) (bootcamps st))
      = map fst (bootcamps st)"
  proof -
    have "(k, b) \<in> set (bootcamps st)"
      using assms(3) by (rule map_of_SomeD)
    then have "k \<in> fst ` set (bootcamps st)"
      by force
    then show ?thesis
      by (simp add: update_keys)
  qed
  show ?thesis
    using keys by (simp add: result update_conv')
qed

text \<open>
  A second upload to \<open>b1\<close>, which already has the photo \<open>photo_b1.png\<close>: the new file
  \<open>banner.png\<close> gets the same name and replaces the file; nothing else changes.
\<close>

theorem upload_assigned_name_witness:
  "map_of (uploads store1) ''./public/uploads/photo_b1.png'' = Some ''logo''
   \<and> bootcampPhotoUpload sample store1 (upload_request admin ''b1''
        \<lparr>file_name = ''banner.png'', file_mimetype = ''image/png'', file_size = 2048,
         file_data = ''banner''\<rparr>)
     = ([Mv ''./public/uploads/photo_b1.png'', Json 200 None (DString ''photo_b1.png'')],
        store1\<lparr>uploads := [(''./public/uploads/photo_b1.png'', ''banner'')]\<rparr>)"
proof -
  let ?file = "\<lparr>file_name = ''banner.png'', file_mimetype = ''image/png'', file_size = 2048,
                 file_data = ''banner''\<rparr>"
  let ?req = "upload_request admin ''b1'' ?file"
  let ?b = "\<lparr>b_user = ObjectId ''e1'', b_photo = Some ''photo_b1.png'',
              b_fields = [(''name'', ''Devworks'')]\<rparr>"
  have id: "params_id ?req = Some ''b1''"
    by (simp add: upload_request_def request_on_def)
  have cast: "castable sample ''b1''"
    by (simp add: sample_def is_digit_def digit_value_def)
  have stored: "map_of (bootcamps store1) ''b1'' = Some ?b"
    by (simp add: store1_def store0_def)
  have g: "\<not> not_owner_nor_admin (b_user ?b) (req_user ?req)"
    by (simp add: upload_request_def request_on_def request_by_def admin_def
          not_owner_nor_admin_def)
  have files: "req_files ?req = Some (Some ?file)"
    by (simp add: upload_request_def)
  have image: "prefix ''image'' (file_mimetype ?file)"
    by simp
  have small: "\<not> js_gt (Num (real (file_size ?file))) (parseInt (js_string (max_file_upload sample)))"
    by (simp add: sample_def parseInt_1000000)
  have name: "''photo_b1.png'' = ''photo_'' @ ''b1'' @ path_ext sample (file_name ?file)"
    by (simp add: sample_def sample_ext_def)
  have dest: "''./public/uploads/photo_b1.png''
      = js_string (file_upload_path sample) @ ''/'' @ ''photo_b1.png''"
    by (simp add: sample_def)
  have sink: "mv sample ''./public/uploads/photo_b1.png'' ?file
      = \<lparr>mv_stored = True, mv_callbacks = [False]\<rparr>"
    by (simp add: sample_def)
  have before: "map_of (uploads store1) ''./public/uploads/photo_b1.png'' = Some ''logo''"
    by (simp add: store1_def)
  from upload_assigned_name [OF id cast stored g files image small name dest sink] before
  show ?thesis
    by (simp add: store1_def store0_def)
qed

text \<open>
  The claim as stated fails on its last part. The name carries the extension of the
  upload, so a repeated upload to the same bootcamp with another extension is moved to
  another file: after \<open>logo.png\<close>, the upload of \<open>banner.jpg\<close> goes to \<open>photo_b1.jpg\<close>, and
  \<open>photo_b1.png\<close> still holds the first file; only the \<open>photo\<close> field is replaced.
\<close>

theorem upload_overwrite_counterexample:
  "bootcampPhotoUpload sample store0 (upload_request admin ''b1''
      \<lparr>file_name = ''logo.png'', file_mimetype = ''image/png'', file_size = 2048,
       file_data = ''logo''\<rparr>)
     = ([Mv ''./public/uploads/photo_b1.png'', Json 200 None (DString ''photo_b1.png'')], store1)
   \<and> bootcampPhotoUpload sample store1 (upload_request admin ''b1''
      \<lparr>file_name = ''banner.jpg'', file_mimetype = ''image/jpeg'', file_size = 2048,
       file_data = ''banner''\<rparr>)
     = ([Mv ''./public/uploads/photo_b1.jpg'', Json 200 None (DString ''photo_b1.jpg'')],
        store0\<lparr>bootcamps := [(''b1'', \<lparr>b_user = ObjectId ''e1'', b_photo = Some ''photo_b1.jpg'',
                                       b_fields = [(''name'', ''Devworks'')]\<rparr>)],
               uploads := [(''./public/uploads/photo_b1.png'', ''logo''),
                           (''./public/uploads/photo_b1.jpg'', ''banner'')]\<rparr>)"
  by (simp add: bootcampPhotoUpload_def photo_callback_def upload_request_def sample_simps
        store1_def admin_def not_owner_nor_admin_def parseInt_1000000 sample_ext_def
        Bootcamp_findByIdAndUpdate_def photo_body_def bootcamp_set_def set_fields_def Let_def)

section \<open>Missing documents in the course controller\<close>

text \<open>
  C9. For a request for the course \<open>i\<close> that the store does not hold, \<open>getCourse\<close> calls
  \<open>next\<close> with the \<open>NotFoundException\<close> of \<open>i\<close> and then still sends the 200 answer whose
  data is null: the missing course does not end the handler.
\<close>

theorem getCourse_absent:
  assumes "params_id req = Some i" and "castable M i" and "i \<notin> fst ` set (courses st)"
  shows "getCourse M st req = ([Next (NotFoundException (Some i)), Json 200 None DNull], st)"
proof -
  have "map_of (courses st) i = None"
    using assms(3) by (simp add: map_of_eq_None_iff)
  then have "findById M (courses st) (params_id req) = Inr None"
    using assms(1,2) by (simp add: findById_def)
  then show ?thesis
    using assms(1) by (simp add: getCourse_def)
qed

theorem getCourse_absent_witness:
  "getCourse sample store0 (request_on stranger ''c9'') =
     ([Next (NotFoundException (Some ''c9'')), Json 200 None DNull], store0)"
proof -
  have 1: "params_id (request_on stranger ''c9'') = Some ''c9''"
    by (simp add: request_on_def)
  have 2: "castable sample ''c9''"
    by (simp add: sample_def is_digit_def digit_value_def)
  have 3: "''c9'' \<notin> fst ` set (courses store0)"
    by (simp add: store0_def)
  from getCourse_absent [OF 1 2 3] show ?thesis .
qed

text \<open>
  C10. For an \<open>addCourse\<close> request on a bootcamp id \<open>i\<close> that the store does not hold,
  by a principal whose id casts to the \<open>ObjectId\<close> \<open>u\<close>: the handler calls \<open>next\<close> with
  the \<open>NotFoundException\<close> and goes on. For an admin it runs \<open>Course.create\<close> on the body
  with \<open>bootcamp\<close> set to \<open>i\<close>: the course \<open>c\<close> that refers to the missing bootcamp is
  stored and answered with 200 (or the creation throws and the plain
  \<open>BadRequestException\<close> follows). For any other role it denies with the
  \<open>InvalidCredentialException\<close> as well, and stores nothing.
\<close>

theorem addCourse_absent_bootcamp:
  assumes "params_bootcampId req = Some i" and "castable M i" and "i \<notin> fst ` set (bootcamps st)"
    and "req_user req = Some U" and "cast_ObjectId M (user_id U) = Inr (Some u)"
    and "c = \<lparr>c_user = u, c_bootcamp = i, c_fields = body_fields (req_body req)\<rparr>"
    and "k = new_id M (map fst (courses st))"
  shows "(role U = ''admin'' \<longrightarrow>
            addCourse M st req =
              (if course_valid M (courses st) c \<and> k \<notin> set (map fst (courses st))
               then ([Next (NotFoundException (Some i)), Json 200 None (DCourse k c)],
                     st\<lparr>courses := courses st @ [(k, c)]\<rparr>)
               else ([Next (NotFoundException (Some i)), Next (BadRequestException None)], st)))
       \<and> (role U \<noteq> ''admin'' \<longrightarrow>
            addCourse M st req =
              ([Next (NotFoundException (Some i)),
                Next (InvalidCredentialException (Some
                  (''User '' @ js_string (params_id req) @
                   '' is not authorized to add a course to bootcamp undefined'')))], st))"
proof -
  have "map_of (bootcamps st) i = None"
    using assms(3) by (simp add: map_of_eq_None_iff)
  then have find: "findById M (bootcamps st) (params_bootcampId req) = Inr None"
    using assms(1,2) by (simp add: findById_def)
  have "user_id U \<noteq> Undefined"
    using assms(5) by (auto simp: cast_ObjectId_def)
  then have "strict_neq Undefined (user_id U)"
    by (cases "user_id U") simp_all
  then have guard: "not_owner_nor_admin Undefined (req_user req) = (role U \<noteq> ''admin'')"
    using assms(4) by (simp add: not_owner_nor_admin_def)
  have "cast_ObjectId M (Str i) = Inr (Some i)"
    using assms(2) by (simp add: cast_ObjectId_def)
  then have create: "Course_create M (courses st)
        ((req_body req)\<lparr>body_bootcamp := Some i, body_user := user_id U\<rparr>) =
      (if \<not> course_valid M (courses st) c then Inl ValidationError
       else if k \<in> set (map fst (courses st)) then Inl DuplicateKey
       else Inr ((k, c), courses st @ [(k, c)]))"
    using assms(5,6,7) by (simp add: Course_create_def Let_def)
  show ?thesis
    using assms(1,4) find guard create
    by (auto simp: addCourse_def Let_def)
qed

theorem addCourse_absent_bootcamp_witness:
  "''b9'' \<notin> fst ` set (bootcamps store0)
   \<and> addCourse sample store0 (course_request admin ''b9'') =
       ([Next (NotFoundException (Some ''b9'')),
         Json 200 None (DCourse ''f1'' \<lparr>c_user = ''a1'', c_bootcamp = ''b9'',
                                         c_fields = [(''title'', ''Testing'')]\<rparr>)],
        store0\<lparr>courses := courses store0 @
          [(''f1'', \<lparr>c_user = ''a1'', c_bootcamp = ''b9'',
                     c_fields = [(''title'', ''Testing'')]\<rparr>)]\<rparr>)
   \<and> addCourse sample store0 (course_request stranger ''b9'') =
       ([Next (NotFoundException (Some ''b9'')),
         Next (InvalidCredentialException (Some
           ''User undefined is not authorized to add a course to bootcamp undefined''))],
        store0)"
proof -
  have 1: "params_bootcampId (course_request u ''b9'') = Some ''b9''" for u
    by (simp add: course_request_def)
  have 2: "castable sample ''b9''"
    by (simp add: sample_def is_digit_def digit_value_def)
  have 3: "''b9'' \<notin> fst ` set (bootcamps store0)"
    by (simp add: store0_def)
  have 4: "req_user (course_request u ''b9'') = Some u" for u
    by (simp add: course_request_def)
  have 5: "cast_ObjectId sample (user_id admin) = Inr (Some ''a1'')"
    "cast_ObjectId sample (user_id stranger) = Inr (Some ''e2'')"
    by (simp_all add: cast_ObjectId_def admin_def stranger_def sample_def is_digit_def
          digit_value_def)
  have a: "addCourse sample store0 (course_request admin ''b9'') =
       ([Next (NotFoundException (Some ''b9'')),
         Json 200 None (DCourse ''f1'' \<lparr>c_user = ''a1'', c_bootcamp = ''b9'',
                                         c_fields = [(''title'', ''Testing'')]\<rparr>)],
        store0\<lparr>courses := courses store0 @
          [(''f1'', \<lparr>c_user = ''a1'', c_bootcamp = ''b9'',
                     c_fields = [(''title'', ''Testing'')]\<rparr>)]\<rparr>)"
    using addCourse_absent_bootcamp [OF 1 2 3 4 5(1) refl refl]
    by (simp add: admin_def course_request_def empty_body_def sample_def store0_def dec_1)
  have b: "addCourse sample store0 (course_request stranger ''b9'') =
       ([Next (NotFoundException (Some ''b9'')),
         Next (InvalidCredentialException (Some
           ''User undefined is not authorized to add a course to bootcamp undefined''))],
        store0)"
    using addCourse_absent_bootcamp [OF 1 2 3 4 5(2) refl refl]
    by (simp add: stranger_def course_request_def)
  from 3 a b show ?thesis by simp
qed

section \<open>The radius of the geospatial query\<close>







section \<open>The reason of a denial\<close>

text \<open>
  C6. A denial should name the resource and the denied action. Every denial names the
  resource (\<open>denial_names_resource\<close>), and \<open>deleteBootcamp\<close> names the action: its reason
  says \<open>delete this bootcamp\<close>. \<open>deleteCourse\<close> carries the reason of \<open>updateCourse\<close>: the
  stranger who may not delete the course \<open>c1\<close> is told about an update.
\<close>

theorem deleteCourse_denial_reason:
  "deleteCourse sample store0 (request_on stranger ''c1'') =
     ([Next (InvalidCredentialException (Some ''User c1 is not authorized to update course c1''))],
      store0)
   \<and> updateCourse sample store0 (request_on stranger ''c1'') =
     ([Next (InvalidCredentialException (Some ''User c1 is not authorized to update course c1''))],
      store0)
   \<and> deleteBootcamp sample store0 (request_on stranger ''b1'') =
     ([Next (InvalidCredentialException (Some ''User b1 is not authorized to delete this bootcamp''))],
      store0)"
  by (simp add: deleteCourse_def updateCourse_def deleteBootcamp_def sample_simps stranger_def
        not_owner_nor_admin_def)

section \<open>Pages\<close>

text \<open>
  C8. For every descriptor with page \<open>p\<close> and limit \<open>l\<close> the executor returns at most \<open>l\<close>
  items and counts them; \<open>previous\<close> is present iff \<open>p > 1\<close>, and \<open>next\<close> iff \<open>p * l\<close> is
  below the number of matching items.
\<close>

theorem execute_page:
  "length (items (execute d coll)) \<le> limit d
   \<and> count (execute d coll) = length (items (execute d coll))
   \<and> (pg_previous (pagination (execute d coll)) \<noteq> None) = (1 < page d)
   \<and> (pg_next (pagination (execute d coll)) \<noteq> None)
       = (page d * limit d < length (filter (matches d) coll))"
  by (simp add: execute_def Let_def length_matching)

text \<open>
  The scenario of the specification: of five matching items sorted by descending tuition,
  page 2 with limit 2 shows the third and the fourth, with both neighbours present.
\<close>

theorem execute_page_witness:
  "execute second_page six_items =
     \<lparr>items = [[(''tuition'', 3000)], [(''tuition'', 2000)]], count = 2,
      pagination = \<lparr>pg_previous = Some (1, 2), pg_next = Some (3, 2)\<rparr>\<rparr>
   \<and> length (filter (matches second_page) six_items) = 5
   \<and> length (items (execute second_page six_items)) \<le> limit second_page"
proof -
  have e: "execute second_page six_items =
     \<lparr>items = [[(''tuition'', 3000)], [(''tuition'', 2000)]], count = 2,
      pagination = \<lparr>pg_previous = Some (1, 2), pg_next = Some (3, 2)\<rparr>\<rparr>"
    by (simp add: execute_def second_page_def six_items_def matching_def matches_def
          select_fields_def sort_items_def Let_def)
  have m: "length (filter (matches second_page) six_items) = 5"
    by (simp add: second_page_def six_items_def matches_def)
  from execute_page [of second_page six_items] e m show ?thesis
    by simp
qed

end
